theory Spec2Isabelle
  imports Complex_Main
begin

section \<open>Multivectors of three-dimensional space (multivectors.py)\<close>

text \<open>
  The module defines one class, \<^verbatim>\<open>MultiVector\<close>, holding eight numbers in an
  \<^verbatim>\<open>array.array('d', ...)\<close>, and a table \<^verbatim>\<open>METRIC\<close> of basis products.

  Numbers. The components are Python floats. They are modelled as \<^typ>\<open>real\<close>:
  finite values with exact arithmetic. Rounding is outside the model, and so is the
  \<^verbatim>\<open>OverflowError\<close> of converting a huge \<^verbatim>\<open>int\<close>. Infinities and NaN are not
  reals; the methods that \<^verbatim>\<open>linear_combination\<close> runs are modelled a second time over
  floats with these values (type \<open>pyfloat\<close> below), and on finite values the two models
  are proved to agree (lemma \<open>linear_combination_fl_finite\<close>).

  Invariant. \<^verbatim>\<open>__init__\<close> always stores exactly eight components and no method
  changes the length of the array; the predicate \<open>wf_mv\<close> below states it and the
  theorems about "every multivector" assume it.
\<close>

subsection \<open>Values and errors\<close>

datatype MultiVector = MultiVector (comp_mv: "real list")

text \<open>The exceptions the modelled code can raise.\<close>

datatype error = IndexError | TypeError

text \<open>
  The Python values that reach the \<^verbatim>\<open>isinstance\<close> tests of \<^verbatim>\<open>__mul__\<close>,
  \<^verbatim>\<open>__rmul__\<close> and \<^verbatim>\<open>__setitem__\<close>.
\<close>

datatype pyval =
    PyMV MultiVector
  | PyInt int
  | PyBool bool
  | PyFloat real
  | PyStr string
  | PyNone

text \<open>\<^verbatim>\<open>isinstance(v, MultiVector)\<close>.\<close>

fun isinstance_MultiVector :: "pyval \<Rightarrow> bool" where
  "isinstance_MultiVector (PyMV m) = True"
| "isinstance_MultiVector v = False"

text \<open>\<^verbatim>\<open>isinstance(v, int)\<close>: in Python \<^verbatim>\<open>bool\<close> is a subclass of \<^verbatim>\<open>int\<close>.\<close>

fun isinstance_int :: "pyval \<Rightarrow> bool" where
  "isinstance_int (PyInt n) = True"
| "isinstance_int (PyBool b) = True"
| "isinstance_int v = False"

text \<open>\<^verbatim>\<open>isinstance(v, float)\<close>.\<close>

fun isinstance_float :: "pyval \<Rightarrow> bool" where
  "isinstance_float (PyFloat x) = True"
| "isinstance_float v = False"

text \<open>The number a numeric Python value stands for (\<^verbatim>\<open>True\<close> is 1, \<^verbatim>\<open>False\<close> is 0).\<close>

fun num_of :: "pyval \<Rightarrow> real" where
  "num_of (PyInt n) = of_int n"
| "num_of (PyBool b) = (if b then 1 else 0)"
| "num_of (PyFloat x) = x"
| "num_of v = 0"

subsection \<open>Construction\<close>

text \<open>
  \<^verbatim>\<open>__init__(self, real=0.0, vecx=0.0, ..., imag=0.0)\<close>:
  \<^verbatim>\<open>self.comp = array.array('d', [real, vecx, vecy, vecz, axix, axiy, axiz, imag])\<close>.
\<close>

definition init :: "real \<Rightarrow> real \<Rightarrow> real \<Rightarrow> real \<Rightarrow> real \<Rightarrow> real \<Rightarrow> real \<Rightarrow> real \<Rightarrow> MultiVector" where
  "init re vecx vecy vecz axix axiy axiz imag =
     MultiVector [re, vecx, vecy, vecz, axix, axiy, axiz, imag]"

text \<open>
  \<^verbatim>\<open>MultiVector(*args)\<close>: the arguments are bound in order to the eight parameters and
  a missing one takes its default 0.0. (More than eight arguments are a
  \<^verbatim>\<open>TypeError\<close> in Python; every call in the module passes a list built over
  \<^verbatim>\<open>range(8)\<close> or over the components of a multivector.)
\<close>

definition init_star :: "real list \<Rightarrow> MultiVector" where
  "init_star args = MultiVector (args @ replicate (8 - length args) 0)"

text \<open>The invariant of the class: the array has eight components.\<close>

definition wf_mv :: "MultiVector \<Rightarrow> bool" where
  "wf_mv v = (length (comp_mv v) = 8)"

subsection \<open>Indexing\<close>

text \<open>
  \<^verbatim>\<open>__getitem__(self, item): return self.comp[item]\<close>. Indexing an array with an
  integer follows the rule of Python sequences: a negative index counts from the end,
  and an index outside \<open>[-len, len)\<close> raises \<^verbatim>\<open>IndexError\<close>.
\<close>

definition getitem :: "MultiVector \<Rightarrow> int \<Rightarrow> error + real" where
  "getitem self item =
     (let n = int (length (comp_mv self));
          j = (if item < 0 then item + n else item)
      in if 0 \<le> j \<and> j < n then Inr (comp_mv self ! nat j) else Inl IndexError)"

text \<open>
  \<^verbatim>\<open>__setitem__(self, key, value)\<close>:
  \<^verbatim>\<open>if isinstance(key, int): self.comp[key] = value\<close>; any other key is ignored.
  The model returns the updated multivector.
\<close>

definition setitem :: "MultiVector \<Rightarrow> pyval \<Rightarrow> real \<Rightarrow> error + MultiVector" where
  "setitem self key v =
     (if isinstance_int key then
        (let n = int (length (comp_mv self));
             item = (case key of PyInt i \<Rightarrow> i | PyBool b \<Rightarrow> (if b then 1 else 0) | _ \<Rightarrow> 0);
             j = (if item < 0 then item + n else item)
         in if 0 \<le> j \<and> j < n then Inr (MultiVector ((comp_mv self)[nat j := v]))
            else Inl IndexError)
      else Inr self)"

text \<open>
  \<^verbatim>\<open>for c in self\<close>: the class has no \<^verbatim>\<open>__iter__\<close>, so Python iterates by calling
  \<^verbatim>\<open>__getitem__\<close> with 0, 1, 2, ... until \<^verbatim>\<open>IndexError\<close>; this yields the
  components in order.
\<close>

definition iter :: "MultiVector \<Rightarrow> real list" where
  "iter self = comp_mv self"

subsection \<open>Vector-space operators\<close>

text \<open>\<^verbatim>\<open>__neg__: MultiVector(*[-c for c in self])\<close>.\<close>

definition neg :: "MultiVector \<Rightarrow> MultiVector" where
  "neg self = init_star [- c. c \<leftarrow> iter self]"

text \<open>\<^verbatim>\<open>__add__: MultiVector(*[c1 + c2 for c1, c2 in zip(self, other)])\<close>.\<close>

definition add :: "MultiVector \<Rightarrow> MultiVector \<Rightarrow> MultiVector" where
  "add self other = init_star [c1 + c2. (c1, c2) \<leftarrow> zip (iter self) (iter other)]"

text \<open>\<^verbatim>\<open>__sub__: MultiVector(*[c1 - c2 for c1, c2 in zip(self, other)])\<close>.\<close>

definition sub :: "MultiVector \<Rightarrow> MultiVector \<Rightarrow> MultiVector" where
  "sub self other = init_star [c1 - c2. (c1, c2) \<leftarrow> zip (iter self) (iter other)]"

subsection \<open>The named basis and the metric table\<close>

definition ZERO :: MultiVector where "ZERO = init 0 0 0 0 0 0 0 0"
definition ONE :: MultiVector where "ONE = init 1 0 0 0 0 0 0 0"
definition VECX :: MultiVector where "VECX = init 0 1 0 0 0 0 0 0"
definition VECY :: MultiVector where "VECY = init 0 0 1 0 0 0 0 0"
definition VECZ :: MultiVector where "VECZ = init 0 0 0 1 0 0 0 0"
definition AXIX :: MultiVector where "AXIX = init 0 0 0 0 1 0 0 0"
definition AXIY :: MultiVector where "AXIY = init 0 0 0 0 0 1 0 0"
definition AXIZ :: MultiVector where "AXIZ = init 0 0 0 0 0 0 1 0"
definition IMAG :: MultiVector where "IMAG = init 0 0 0 0 0 0 0 1"

text \<open>The module-level list \<^verbatim>\<open>METRIC\<close> of multivectors (lines 186 to 195).\<close>

definition METRIC_rows :: "MultiVector list list" where
  "METRIC_rows =
   [[ONE, VECX, VECY, VECZ, AXIX, AXIY, AXIZ, IMAG],
    [VECX, ONE, AXIX, neg AXIZ, VECY, IMAG, neg VECZ, AXIY],
    [VECY, neg AXIX, ONE, AXIY, neg VECX, VECZ, IMAG, AXIZ],
    [VECZ, AXIZ, neg AXIY, ONE, IMAG, neg VECY, VECX, AXIX],
    [AXIX, neg VECY, VECX, IMAG, neg ONE, neg AXIZ, AXIY, neg VECZ],
    [AXIY, IMAG, neg VECZ, VECY, AXIZ, neg ONE, neg AXIX, neg VECX],
    [AXIZ, VECZ, IMAG, neg VECX, neg AXIY, AXIX, neg ONE, neg VECY],
    [IMAG, AXIY, AXIZ, AXIX, neg VECZ, neg VECX, neg VECY, neg ONE]]"

text \<open>
  \<^verbatim>\<open>MultiVector.METRIC = [[res.comp for res in row] for row in METRIC]\<close>: the class
  attribute the product reads, a table of raw component arrays.
\<close>

definition METRIC :: "real list list list" where
  "METRIC = [[comp_mv res. res \<leftarrow> row]. row \<leftarrow> METRIC_rows]"

definition VECTOR_BASIS :: "MultiVector list" where
  "VECTOR_BASIS = [VECX, VECY, VECZ]"

definition AXIS_BASIS :: "MultiVector list" where
  "AXIS_BASIS = [AXIX, AXIY, AXIZ]"

subsection \<open>Multiplication\<close>

text \<open>Python's \<^verbatim>\<open>sum(xs)\<close>: a left fold of \<open>+\<close> starting from 0.\<close>

definition py_sum :: "real list \<Rightarrow> real" where
  "py_sum xs = foldl (+) 0 xs"

text \<open>
  \<^verbatim>\<open>__mul__(self, other)\<close>. The three branches of the \<^verbatim>\<open>isinstance\<close> chain, in the
  order of the source; the result \<open>None\<close> is the \<^verbatim>\<open>return None\<close> of the last one.
  \<^verbatim>\<open>self[j]\<close> and \<^verbatim>\<open>other[k]\<close> are read with indices of \<^verbatim>\<open>range(8)\<close>, which are
  in range by the invariant.
\<close>

fun mul :: "MultiVector \<Rightarrow> pyval \<Rightarrow> MultiVector option" where
  "mul self (PyMV other) =
     Some (init_star
       [py_sum
          [py_sum
             [comp_mv self ! j * comp_mv other ! k * METRIC ! j ! k ! i. k \<leftarrow> [0..<8]].
           j \<leftarrow> [0..<8]].
        i \<leftarrow> [0..<8]])"
| "mul self other =
     (if isinstance_int other \<or> isinstance_float other
      then Some (init_star [c * num_of other. c \<leftarrow> iter self])
      else None)"

text \<open>
  \<^verbatim>\<open>__rmul__(self, other)\<close>; with no branch taken the method returns \<^verbatim>\<open>None\<close>.
\<close>

fun rmul :: "MultiVector \<Rightarrow> pyval \<Rightarrow> MultiVector option" where
  "rmul self (PyMV other) = mul other (PyMV self)"
| "rmul self other =
     (if isinstance_int other \<or> isinstance_float other then mul self other else None)"

subsection \<open>Linear combinations and helpers\<close>

text \<open>
  \<^verbatim>\<open>linear_combination(cls, system, comps)\<close>:
  \<^verbatim>\<open>sum([c * v for c, v in zip(comps, system)], MultiVector.ZERO)\<close> when the lengths
  agree, \<^verbatim>\<open>None\<close> otherwise. The coefficients are numbers; for a number \<open>c\<close> the
  product \<^verbatim>\<open>c * v\<close> is resolved by Python to \<^verbatim>\<open>v.__rmul__(c)\<close>. The sum with a start
  value is a left fold of \<^verbatim>\<open>__add__\<close> from \<^verbatim>\<open>ZERO\<close>. (A product that is \<^verbatim>\<open>None\<close>
  would make \<^verbatim>\<open>sum\<close> raise; lemma \<open>rmul_float\<close> shows that a numeric coefficient never
  gives one.) The coefficients here are finite numbers; \<open>linear_combination_fl\<close> below is
  the same method with coefficients that may be infinite or NaN.
\<close>

definition linear_combination :: "MultiVector list \<Rightarrow> real list \<Rightarrow> MultiVector option" where
  "linear_combination system comps =
     (if length system = length comps
      then map_option (foldl add ZERO) (those [rmul v (PyFloat c). (c, v) \<leftarrow> zip comps system])
      else None)"

text \<open>\<^verbatim>\<open>get_vector(cls, x, y, z): MultiVector(vecx=x, vecy=y, vecz=z)\<close>.\<close>

definition get_vector :: "real \<Rightarrow> real \<Rightarrow> real \<Rightarrow> MultiVector" where
  "get_vector x y z = init 0 x y z 0 0 0 0"

text \<open>\<^verbatim>\<open>get_axis(cls, x, y, z): MultiVector(axix=x, axiy=y, axiz=z)\<close>.\<close>

definition get_axis :: "real \<Rightarrow> real \<Rightarrow> real \<Rightarrow> MultiVector" where
  "get_axis x y z = init 0 0 0 0 x y z 0"

subsection \<open>Rotors and rotation\<close>

text \<open>
  \<^verbatim>\<open>rotor2(cls, axis, theta_cos, theta_sin)\<close>; \<^verbatim>\<open>axis[4]\<close>, \<^verbatim>\<open>axis[5]\<close> and
  \<^verbatim>\<open>axis[6]\<close> are in range by the invariant.
\<close>

definition rotor2 :: "MultiVector \<Rightarrow> real \<Rightarrow> real \<Rightarrow> MultiVector" where
  "rotor2 axis theta_cos theta_sin =
     init theta_cos 0 0 0
       (comp_mv axis ! 4 * theta_sin) (comp_mv axis ! 5 * theta_sin) (comp_mv axis ! 6 * theta_sin) 0"

text \<open>\<^verbatim>\<open>rotor(cls, axis, theta): MultiVector.rotor2(axis, cos(theta), sin(theta))\<close>.\<close>

definition rotor :: "MultiVector \<Rightarrow> real \<Rightarrow> MultiVector" where
  "rotor axis theta = rotor2 axis (cos theta) (sin theta)"

text \<open>
  \<^verbatim>\<open>rotate3(self, l_rot, r_rot): return (l_rot * self) * r_rot\<close>; both products are
  calls of \<^verbatim>\<open>__mul__\<close> on the left operand.
\<close>

definition rotate3 :: "MultiVector \<Rightarrow> MultiVector \<Rightarrow> MultiVector \<Rightarrow> MultiVector option" where
  "rotate3 self l_rot r_rot =
     Option.bind (mul l_rot (PyMV self)) (\<lambda>m. mul m (PyMV r_rot))"

text \<open>
  \<^verbatim>\<open>rotate2(self, axis, cos2, sin2)\<close>:
  \<^verbatim>\<open>self.rotate3(rotor2(axis, cos2, sin2), rotor2(axis, cos2, -sin2))\<close>.
\<close>

definition rotate2 :: "MultiVector \<Rightarrow> MultiVector \<Rightarrow> real \<Rightarrow> real \<Rightarrow> MultiVector option" where
  "rotate2 self axis cos2 sin2 =
     rotate3 self (rotor2 axis cos2 sin2) (rotor2 axis cos2 (- sin2))"

text \<open>\<^verbatim>\<open>rotate(self, axis, theta): self.rotate2(axis, cos(theta / 2), sin(theta / 2))\<close>.\<close>

definition rotate :: "MultiVector \<Rightarrow> MultiVector \<Rightarrow> real \<Rightarrow> MultiVector option" where
  "rotate self axis theta = rotate2 self axis (cos (theta / 2)) (sin (theta / 2))"

section \<open>Floats with infinities and NaN\<close>

text \<open>
  A Python float is a finite number, one of the two infinities, or NaN. Products and
  sums follow IEEE 754 on these values: anything with NaN is NaN, zero times an infinity
  is NaN, the sum of the two infinities is NaN. On finite operands the arithmetic is that
  of the reals (no rounding, no overflow to infinity), and the sign of zero is not kept.
\<close>

datatype pyfloat = Finite real | PosInf | NegInf | NaN

text \<open>The float product \<^verbatim>\<open>x * y\<close>.\<close>

fun fl_mul :: "pyfloat \<Rightarrow> pyfloat \<Rightarrow> pyfloat" where
  "fl_mul NaN y = NaN"
| "fl_mul x NaN = NaN"
| "fl_mul (Finite a) (Finite b) = Finite (a * b)"
| "fl_mul (Finite a) PosInf = (if a = 0 then NaN else if 0 < a then PosInf else NegInf)"
| "fl_mul (Finite a) NegInf = (if a = 0 then NaN else if 0 < a then NegInf else PosInf)"
| "fl_mul PosInf (Finite b) = (if b = 0 then NaN else if 0 < b then PosInf else NegInf)"
| "fl_mul NegInf (Finite b) = (if b = 0 then NaN else if 0 < b then NegInf else PosInf)"
| "fl_mul PosInf PosInf = PosInf"
| "fl_mul PosInf NegInf = NegInf"
| "fl_mul NegInf PosInf = NegInf"
| "fl_mul NegInf NegInf = PosInf"

text \<open>The float sum \<^verbatim>\<open>x + y\<close>.\<close>

fun fl_add :: "pyfloat \<Rightarrow> pyfloat \<Rightarrow> pyfloat" where
  "fl_add NaN y = NaN"
| "fl_add x NaN = NaN"
| "fl_add (Finite a) (Finite b) = Finite (a + b)"
| "fl_add (Finite a) PosInf = PosInf"
| "fl_add (Finite a) NegInf = NegInf"
| "fl_add PosInf (Finite b) = PosInf"
| "fl_add NegInf (Finite b) = NegInf"
| "fl_add PosInf PosInf = PosInf"
| "fl_add PosInf NegInf = NaN"
| "fl_add NegInf PosInf = NaN"
| "fl_add NegInf NegInf = NegInf"

text \<open>
  The class over these floats, for the methods that
  \<^verbatim>\<open>linear_combination(VECTOR_BASIS, (x, y, z))\<close> and \<^verbatim>\<open>get_vector(x, y, z)\<close> run:
  \<^verbatim>\<open>__init__\<close>, iteration, \<^verbatim>\<open>__add__\<close>, the float branch of \<^verbatim>\<open>__mul__\<close> and of
  \<^verbatim>\<open>__rmul__\<close>, and the constants they read. Each definition has the body of its
  namesake above, with \<open>fl_add\<close> and \<open>fl_mul\<close> for \<open>+\<close> and \<open>*\<close>.
\<close>

datatype MultiVector_fl = MultiVector_fl (comp_fl: "pyfloat list")

definition init_fl ::
  "pyfloat \<Rightarrow> pyfloat \<Rightarrow> pyfloat \<Rightarrow> pyfloat \<Rightarrow> pyfloat \<Rightarrow> pyfloat \<Rightarrow> pyfloat \<Rightarrow> pyfloat \<Rightarrow>
   MultiVector_fl" where
  "init_fl re vecx vecy vecz axix axiy axiz imag =
     MultiVector_fl [re, vecx, vecy, vecz, axix, axiy, axiz, imag]"

definition init_star_fl :: "pyfloat list \<Rightarrow> MultiVector_fl" where
  "init_star_fl args = MultiVector_fl (args @ replicate (8 - length args) (Finite 0))"

definition iter_fl :: "MultiVector_fl \<Rightarrow> pyfloat list" where
  "iter_fl self = comp_fl self"

text \<open>\<^verbatim>\<open>__add__: MultiVector(*[c1 + c2 for c1, c2 in zip(self, other)])\<close>.\<close>

definition add_fl :: "MultiVector_fl \<Rightarrow> MultiVector_fl \<Rightarrow> MultiVector_fl" where
  "add_fl self other =
     init_star_fl [fl_add c1 c2. (c1, c2) \<leftarrow> zip (iter_fl self) (iter_fl other)]"

text \<open>
  \<^verbatim>\<open>__mul__\<close> with a float operand, the branch
  \<^verbatim>\<open>MultiVector(*[c * other for c in self])\<close>: each component times the operand, the
  component on the left.
\<close>

definition mul_fl :: "MultiVector_fl \<Rightarrow> pyfloat \<Rightarrow> MultiVector_fl option" where
  "mul_fl self other = Some (init_star_fl [fl_mul c other. c \<leftarrow> iter_fl self])"

text \<open>\<^verbatim>\<open>__rmul__\<close> with a float operand: \<^verbatim>\<open>return self.__mul__(other)\<close>.\<close>

definition rmul_fl :: "MultiVector_fl \<Rightarrow> pyfloat \<Rightarrow> MultiVector_fl option" where
  "rmul_fl self other = mul_fl self other"

definition ZERO_fl :: MultiVector_fl where
  "ZERO_fl = init_fl (Finite 0) (Finite 0) (Finite 0) (Finite 0)
     (Finite 0) (Finite 0) (Finite 0) (Finite 0)"

definition VECX_fl :: MultiVector_fl where
  "VECX_fl = init_fl (Finite 0) (Finite 1) (Finite 0) (Finite 0)
     (Finite 0) (Finite 0) (Finite 0) (Finite 0)"

definition VECY_fl :: MultiVector_fl where
  "VECY_fl = init_fl (Finite 0) (Finite 0) (Finite 1) (Finite 0)
     (Finite 0) (Finite 0) (Finite 0) (Finite 0)"

definition VECZ_fl :: MultiVector_fl where
  "VECZ_fl = init_fl (Finite 0) (Finite 0) (Finite 0) (Finite 1)
     (Finite 0) (Finite 0) (Finite 0) (Finite 0)"

definition VECTOR_BASIS_fl :: "MultiVector_fl list" where
  "VECTOR_BASIS_fl = [VECX_fl, VECY_fl, VECZ_fl]"

text \<open>
  \<^verbatim>\<open>linear_combination(cls, system, comps)\<close> with float coefficients, as above: the
  products \<^verbatim>\<open>c * v\<close> through \<^verbatim>\<open>__rmul__\<close>, summed by \<^verbatim>\<open>__add__\<close> from \<^verbatim>\<open>ZERO\<close>.
\<close>

definition linear_combination_fl ::
  "MultiVector_fl list \<Rightarrow> pyfloat list \<Rightarrow> MultiVector_fl option" where
  "linear_combination_fl system comps =
     (if length system = length comps
      then map_option (foldl add_fl ZERO_fl) (those [rmul_fl v c. (c, v) \<leftarrow> zip comps system])
      else None)"

text \<open>\<^verbatim>\<open>get_vector(cls, x, y, z): MultiVector(vecx=x, vecy=y, vecz=z)\<close>.\<close>

definition get_vector_fl :: "pyfloat \<Rightarrow> pyfloat \<Rightarrow> pyfloat \<Rightarrow> MultiVector_fl" where
  "get_vector_fl x y z = init_fl (Finite 0) x y z (Finite 0) (Finite 0) (Finite 0) (Finite 0)"

text \<open>A multivector of finite components, read as one of floats.\<close>

definition of_mv :: "MultiVector \<Rightarrow> MultiVector_fl" where
  "of_mv v = MultiVector_fl (map Finite (comp_mv v))"

section \<open>The Clifford algebra of the specification\<close>

text \<open>
  A second definition of the multiplication table, not read off the source: the algebra
  Cl(3,0) as the specification words it. There are three generators \<open>e1\<close>, \<open>e2\<close>, \<open>e3\<close>;
  each squares to \<open>+1\<close> and two distinct ones anticommute. A product of generators is a
  word, a list of the numbers 1, 2, 3. The eight basis elements are the words below:
  the scalar is the empty word, the vectors are the generators, \<open>AXIX\<close> is \<open>e1 e2\<close> (the
  specification's \<open>VECX * VECY == AXIX\<close>), \<open>AXIY\<close> and \<open>AXIZ\<close> continue cyclically as \<open>e2 e3\<close>
  and \<open>e3 e1\<close>, and the pseudoscalar is \<open>e1 e2 e3\<close>.
\<close>

definition blades :: "nat list list" where
  "blades = [[], [1], [2], [3], [1, 2], [2, 3], [3, 1], [1, 2, 3]]"

text \<open>
  \<open>ins_gen g w\<close> multiplies the generator \<open>g\<close> onto the left of the ascending word \<open>w\<close> and
  gives the sign and the ascending word of the product: moving \<open>g\<close> past a smaller
  generator changes the sign, and meeting itself it cancels.
\<close>

fun ins_gen :: "nat \<Rightarrow> nat list \<Rightarrow> int \<times> nat list" where
  "ins_gen g [] = (1, [g])"
| "ins_gen g (h # w) =
     (if g < h then (1, g # h # w)
      else if g = h then (1, w)
      else (case ins_gen g w of (s, w') \<Rightarrow> (- s, h # w')))"

text \<open>The sign and the ascending word of an arbitrary word.\<close>

fun canon :: "nat list \<Rightarrow> int \<times> nat list" where
  "canon [] = (1, [])"
| "canon (g # gs) =
     (case canon gs of (s, w) \<Rightarrow> (case ins_gen g w of (t, w') \<Rightarrow> (s * t, w')))"

text \<open>
  The product of basis element \<open>j\<close> with basis element \<open>k\<close>, as eight components: the
  signed basis element with the same ascending word as the concatenated words.
\<close>

definition cl3_product :: "nat \<Rightarrow> nat \<Rightarrow> real list" where
  "cl3_product j k =
     (case canon (blades ! j @ blades ! k) of (s, w) \<Rightarrow>
        [if snd (canon b) = w then of_int (s * fst (canon b)) else 0. b \<leftarrow> blades])"

definition cl3_table :: "real list list list" where
  "cl3_table = [[cl3_product j k. k \<leftarrow> [0..<8]]. j \<leftarrow> [0..<8]]"

section \<open>The invariant\<close>

lemma wf_init: "wf_mv (init a b c d e f g h)"
  by (simp add: wf_mv_def init_def)

lemma wf_init_star: "length args \<le> 8 \<Longrightarrow> wf_mv (init_star args)"
  by (simp add: wf_mv_def init_star_def)

lemma wf_neg: "wf_mv a \<Longrightarrow> wf_mv (neg a)"
  by (simp add: wf_mv_def neg_def iter_def init_star_def)

lemma wf_add: "wf_mv a \<Longrightarrow> wf_mv b \<Longrightarrow> wf_mv (add a b)"
  by (simp add: wf_mv_def add_def iter_def init_star_def)

lemma wf_sub: "wf_mv a \<Longrightarrow> wf_mv b \<Longrightarrow> wf_mv (sub a b)"
  by (simp add: wf_mv_def sub_def iter_def init_star_def)

lemma wf_scaled: "wf_mv v \<Longrightarrow> wf_mv (init_star [x * c. x \<leftarrow> iter v])"
  by (simp add: wf_mv_def iter_def init_star_def)

lemma wf_mv_cases:
  assumes "wf_mv v"
  obtains a0 a1 a2 a3 a4 a5 a6 a7 where "v = MultiVector [a0, a1, a2, a3, a4, a5, a6, a7]"
proof -
  obtain xs where v: "v = MultiVector xs" by (cases v)
  with assms have "length xs = 8" by (simp add: wf_mv_def)
  then obtain a0 a1 a2 a3 a4 a5 a6 a7 where "xs = [a0, a1, a2, a3, a4, a5, a6, a7]"
    by (auto simp: length_Suc_conv eval_nat_numeral)
  with v show thesis using that by simp
qed

text \<open>
  Under the invariant the direct reads \<open>comp_mv v ! j\<close> used for \<^verbatim>\<open>self[j]\<close> with
  \<open>j\<close> in \<^verbatim>\<open>range(8)\<close> are what \<^verbatim>\<open>__getitem__\<close> returns.
\<close>

lemma getitem_in_range: "wf_mv v \<Longrightarrow> j < 8 \<Longrightarrow> getitem v (int j) = Inr (comp_mv v ! j)"
  by (simp add: getitem_def wf_mv_def)

section \<open>Evaluating the product\<close>

lemma upt_8: "[0..<8] = [0, 1, 2, 3, 4, 5, 6, 7]"
  by (simp add: upt_rec)

lemmas basis_defs =
  ZERO_def ONE_def VECX_def VECY_def VECZ_def AXIX_def AXIY_def AXIZ_def IMAG_def init_def

text \<open>The table of component arrays, entry by entry.\<close>

lemma METRIC_literal:
  "METRIC =
    [[[1, 0, 0, 0, 0, 0, 0, 0], [0, 1, 0, 0, 0, 0, 0, 0],
      [0, 0, 1, 0, 0, 0, 0, 0], [0, 0, 0, 1, 0, 0, 0, 0],
      [0, 0, 0, 0, 1, 0, 0, 0], [0, 0, 0, 0, 0, 1, 0, 0],
      [0, 0, 0, 0, 0, 0, 1, 0], [0, 0, 0, 0, 0, 0, 0, 1]],
     [[0, 1, 0, 0, 0, 0, 0, 0], [1, 0, 0, 0, 0, 0, 0, 0],
      [0, 0, 0, 0, 1, 0, 0, 0], [0, 0, 0, 0, 0, 0, - 1, 0],
      [0, 0, 1, 0, 0, 0, 0, 0], [0, 0, 0, 0, 0, 0, 0, 1],
      [0, 0, 0, - 1, 0, 0, 0, 0], [0, 0, 0, 0, 0, 1, 0, 0]],
     [[0, 0, 1, 0, 0, 0, 0, 0], [0, 0, 0, 0, - 1, 0, 0, 0],
      [1, 0, 0, 0, 0, 0, 0, 0], [0, 0, 0, 0, 0, 1, 0, 0],
      [0, - 1, 0, 0, 0, 0, 0, 0], [0, 0, 0, 1, 0, 0, 0, 0],
      [0, 0, 0, 0, 0, 0, 0, 1], [0, 0, 0, 0, 0, 0, 1, 0]],
     [[0, 0, 0, 1, 0, 0, 0, 0], [0, 0, 0, 0, 0, 0, 1, 0],
      [0, 0, 0, 0, 0, - 1, 0, 0], [1, 0, 0, 0, 0, 0, 0, 0],
      [0, 0, 0, 0, 0, 0, 0, 1], [0, 0, - 1, 0, 0, 0, 0, 0],
      [0, 1, 0, 0, 0, 0, 0, 0], [0, 0, 0, 0, 1, 0, 0, 0]],
     [[0, 0, 0, 0, 1, 0, 0, 0], [0, 0, - 1, 0, 0, 0, 0, 0],
      [0, 1, 0, 0, 0, 0, 0, 0], [0, 0, 0, 0, 0, 0, 0, 1],
      [- 1, 0, 0, 0, 0, 0, 0, 0], [0, 0, 0, 0, 0, 0, - 1, 0],
      [0, 0, 0, 0, 0, 1, 0, 0], [0, 0, 0, - 1, 0, 0, 0, 0]],
     [[0, 0, 0, 0, 0, 1, 0, 0], [0, 0, 0, 0, 0, 0, 0, 1],
      [0, 0, 0, - 1, 0, 0, 0, 0], [0, 0, 1, 0, 0, 0, 0, 0],
      [0, 0, 0, 0, 0, 0, 1, 0], [- 1, 0, 0, 0, 0, 0, 0, 0],
      [0, 0, 0, 0, - 1, 0, 0, 0], [0, - 1, 0, 0, 0, 0, 0, 0]],
     [[0, 0, 0, 0, 0, 0, 1, 0], [0, 0, 0, 1, 0, 0, 0, 0],
      [0, 0, 0, 0, 0, 0, 0, 1], [0, - 1, 0, 0, 0, 0, 0, 0],
      [0, 0, 0, 0, 0, - 1, 0, 0], [0, 0, 0, 0, 1, 0, 0, 0],
      [- 1, 0, 0, 0, 0, 0, 0, 0], [0, 0, - 1, 0, 0, 0, 0, 0]],
     [[0, 0, 0, 0, 0, 0, 0, 1], [0, 0, 0, 0, 0, 1, 0, 0],
      [0, 0, 0, 0, 0, 0, 1, 0], [0, 0, 0, 0, 1, 0, 0, 0],
      [0, 0, 0, - 1, 0, 0, 0, 0], [0, - 1, 0, 0, 0, 0, 0, 0],
      [0, 0, - 1, 0, 0, 0, 0, 0], [- 1, 0, 0, 0, 0, 0, 0, 0]]]"
  by (simp add: METRIC_def METRIC_rows_def basis_defs neg_def iter_def init_star_def)

text \<open>The product of two multivectors given by their eight components, summed out.\<close>

lemma mul_expand:
  "mul (MultiVector [a0, a1, a2, a3, a4, a5, a6, a7])
       (PyMV (MultiVector [b0, b1, b2, b3, b4, b5, b6, b7])) =
   Some (MultiVector
     [a0 * b0 + a1 * b1 + a2 * b2 + a3 * b3 - a4 * b4 - a5 * b5 - a6 * b6 - a7 * b7,
      a0 * b1 + a1 * b0 - a2 * b4 + a3 * b6 + a4 * b2 - a5 * b7 - a6 * b3 - a7 * b5,
      a0 * b2 + a1 * b4 + a2 * b0 - a3 * b5 - a4 * b1 + a5 * b3 - a6 * b7 - a7 * b6,
      a0 * b3 - a1 * b6 + a2 * b5 + a3 * b0 - a4 * b7 - a5 * b2 + a6 * b1 - a7 * b4,
      a0 * b4 + a1 * b2 - a2 * b1 + a3 * b7 + a4 * b0 - a5 * b6 + a6 * b5 + a7 * b3,
      a0 * b5 + a1 * b7 + a2 * b3 - a3 * b2 + a4 * b6 + a5 * b0 - a6 * b4 + a7 * b1,
      a0 * b6 - a1 * b3 + a2 * b7 + a3 * b1 - a4 * b5 + a5 * b4 + a6 * b0 + a7 * b2,
      a0 * b7 + a1 * b5 + a2 * b6 + a3 * b4 + a4 * b3 + a5 * b1 + a6 * b2 + a7 * b0])"
  by (simp add: upt_8 py_sum_def init_star_def METRIC_literal)

declare mul.simps(1) [simp del]

text \<open>Python's left-fold \<^verbatim>\<open>sum\<close> over \<^verbatim>\<open>range(n)\<close> is the finite sum.\<close>

lemma foldl_plus_sum_list: "foldl (+) a xs = a + sum_list xs" for a :: real
  by (induction xs arbitrary: a) (simp_all add: add.assoc)

lemma py_sum_upt: "py_sum (map f [0..<n]) = (\<Sum>j = 0..<n. f j)"
  by (simp add: py_sum_def foldl_plus_sum_list interv_sum_list_conv_sum_set_nat)

lemma mul_sum:
  "mul a (PyMV b) =
     Some (MultiVector
       [\<Sum>j = 0..<8. \<Sum>k = 0..<8. comp_mv a ! j * comp_mv b ! k * METRIC ! j ! k ! i.
        i \<leftarrow> [0..<8]])"
  by (simp add: mul.simps(1) py_sum_upt init_star_def)

lemma wf_mul: "mul a (PyMV b) = Some r \<Longrightarrow> wf_mv r"
  by (auto simp: mul_sum wf_mv_def)

section \<open>The algebra of the table\<close>

text \<open>
  The relations of the Clifford algebra of Euclidean 3-space, on the named basis: each
  vector squares to \<open>ONE\<close>, two distinct vectors anticommute and their products are the
  bivectors \<open>AXIX = VECX VECY\<close>, \<open>AXIY = VECY VECZ\<close>, \<open>AXIZ = VECZ VECX\<close>, each bivector
  and \<open>IMAG\<close> square to \<open>- ONE\<close>, and \<open>IMAG\<close> commutes with every basis element.
\<close>

lemma cl3_relations:
  "mul VECX (PyMV VECX) = Some ONE \<and> mul VECY (PyMV VECY) = Some ONE \<and>
   mul VECZ (PyMV VECZ) = Some ONE \<and>
   mul VECX (PyMV VECY) = Some AXIX \<and> mul VECY (PyMV VECX) = Some (neg AXIX) \<and>
   mul VECY (PyMV VECZ) = Some AXIY \<and> mul VECZ (PyMV VECY) = Some (neg AXIY) \<and>
   mul VECZ (PyMV VECX) = Some AXIZ \<and> mul VECX (PyMV VECZ) = Some (neg AXIZ) \<and>
   mul AXIX (PyMV AXIX) = Some (neg ONE) \<and> mul AXIY (PyMV AXIY) = Some (neg ONE) \<and>
   mul AXIZ (PyMV AXIZ) = Some (neg ONE) \<and> mul IMAG (PyMV IMAG) = Some (neg ONE) \<and>
   [mul IMAG (PyMV b). b \<leftarrow> [ONE, VECX, VECY, VECZ, AXIX, AXIY, AXIZ, IMAG]] =
   [mul b (PyMV IMAG). b \<leftarrow> [ONE, VECX, VECY, VECZ, AXIX, AXIY, AXIZ, IMAG]] \<and>
   comp_mv (neg AXIY) = [0, 0, 0, 0, 0, - 1, 0, 0] \<and>
   comp_mv (neg AXIZ) = [0, 0, 0, 0, 0, 0, - 1, 0]"
  by (simp add: basis_defs mul_expand neg_def iter_def init_star_def)

text \<open>The product is associative (in exact arithmetic).\<close>

lemma mul_assoc:
  assumes "wf_mv a" "wf_mv b" "wf_mv c"
  shows "Option.bind (mul a (PyMV b)) (\<lambda>m. mul m (PyMV c)) =
         Option.bind (mul b (PyMV c)) (\<lambda>m. mul a (PyMV m))"
proof -
  from assms(1) obtain a0 a1 a2 a3 a4 a5 a6 a7 where
    a: "a = MultiVector [a0, a1, a2, a3, a4, a5, a6, a7]" by (rule wf_mv_cases)
  from assms(2) obtain b0 b1 b2 b3 b4 b5 b6 b7 where
    b: "b = MultiVector [b0, b1, b2, b3, b4, b5, b6, b7]" by (rule wf_mv_cases)
  from assms(3) obtain c0 c1 c2 c3 c4 c5 c6 c7 where
    c: "c = MultiVector [c0, c1, c2, c3, c4, c5, c6, c7]" by (rule wf_mv_cases)
  show ?thesis unfolding a b c by (simp add: mul_expand algebra_simps)
qed

text \<open>The table of the source is the table of the Clifford algebra, entry by entry.\<close>

lemma METRIC_cl3: "METRIC = cl3_table"
  by (simp add: METRIC_literal cl3_table_def cl3_product_def upt_8 blades_def)

lemma basis_products_cl3:
  "[[map_option comp_mv (mul bj (PyMV bk)).
       bk \<leftarrow> [ONE, VECX, VECY, VECZ, AXIX, AXIY, AXIZ, IMAG]].
     bj \<leftarrow> [ONE, VECX, VECY, VECZ, AXIX, AXIY, AXIZ, IMAG]] =
   [[Some e. e \<leftarrow> row]. row \<leftarrow> cl3_table]"
  unfolding METRIC_cl3 [symmetric] METRIC_literal
  by (simp add: basis_defs mul_expand)

lemma named_products:
  "mul VECX (PyMV VECX) = Some ONE \<and>
   mul VECX (PyMV VECY) = Some AXIX \<and>
   mul VECY (PyMV VECX) = Some (neg AXIX) \<and>
   mul AXIX (PyMV AXIX) = Some (neg ONE) \<and>
   mul IMAG (PyMV IMAG) = Some (neg ONE) \<and>
   Option.bind (mul VECX (PyMV VECY)) (\<lambda>m. mul m (PyMV VECZ)) = Some IMAG \<and>
   comp_mv ONE = [1, 0, 0, 0, 0, 0, 0, 0] \<and>
   comp_mv AXIX = [0, 0, 0, 0, 1, 0, 0, 0] \<and>
   comp_mv IMAG = [0, 0, 0, 0, 0, 0, 0, 1] \<and>
   comp_mv (neg AXIX) = [0, 0, 0, 0, - 1, 0, 0, 0] \<and>
   comp_mv (neg ONE) = [- 1, 0, 0, 0, 0, 0, 0, 0]"
  by (simp add: basis_defs mul_expand neg_def iter_def init_star_def)

lemma mul_assoc_all:
  "\<forall>a b c. wf_mv a \<and> wf_mv b \<and> wf_mv c \<longrightarrow>
     Option.bind (mul a (PyMV b)) (\<lambda>m. mul m (PyMV c)) =
     Option.bind (mul b (PyMV c)) (\<lambda>m. mul a (PyMV m))"
  by (simp add: mul_assoc)

text \<open>\<open>ONE\<close> is the unit of the product.\<close>

lemma mul_ONE:
  "\<forall>a. wf_mv a \<longrightarrow> mul ONE (PyMV a) = Some a \<and> mul a (PyMV ONE) = Some a"
proof (intro allI impI)
  fix a assume "wf_mv a"
  then obtain a0 a1 a2 a3 a4 a5 a6 a7 where
    a: "a = MultiVector [a0, a1, a2, a3, a4, a5, a6, a7]" by (rule wf_mv_cases)
  show "mul ONE (PyMV a) = Some a \<and> mul a (PyMV ONE) = Some a"
    by (simp add: a ONE_def init_def mul_expand)
qed

text \<open>
  C1. The metric table is the signed Cayley table of Cl(3,0):
  \<^item> it equals, in all 64 entries and their signs, the table computed from the
    generators and their relations (\<open>cl3_table\<close>), and the table of numbers written out
    below;
  \<^item> the product of basis element \<open>j\<close> with basis element \<open>k\<close>, as \<^verbatim>\<open>__mul__\<close> computes
    it, is entry \<open>(j, k)\<close> of that table;
  \<^item> \<open>VECX * VECX = ONE\<close>, \<open>VECX * VECY = AXIX\<close>, \<open>VECY * VECX = -AXIX\<close>,
    \<open>AXIX * AXIX = -ONE\<close>, \<open>IMAG * IMAG = -ONE\<close> and \<open>(VECX * VECY) * VECZ = IMAG\<close>, each
    an equality of all eight components, with the components of both sides written out;
  \<^item> the relations of the algebra hold on the named basis: each vector squares to
    \<open>ONE\<close>, distinct vectors anticommute and their products are the bivectors, each
    bivector and the pseudoscalar square to \<open>-ONE\<close>, the pseudoscalar commutes with every
    basis element;
  \<^item> the product is associative and \<open>ONE\<close> is its unit.
\<close>

theorem metric_cayley_table:
  "METRIC = cl3_table \<and>
   METRIC =
      [[[1, 0, 0, 0, 0, 0, 0, 0], [0, 1, 0, 0, 0, 0, 0, 0],
        [0, 0, 1, 0, 0, 0, 0, 0], [0, 0, 0, 1, 0, 0, 0, 0],
        [0, 0, 0, 0, 1, 0, 0, 0], [0, 0, 0, 0, 0, 1, 0, 0],
        [0, 0, 0, 0, 0, 0, 1, 0], [0, 0, 0, 0, 0, 0, 0, 1]],
       [[0, 1, 0, 0, 0, 0, 0, 0], [1, 0, 0, 0, 0, 0, 0, 0],
        [0, 0, 0, 0, 1, 0, 0, 0], [0, 0, 0, 0, 0, 0, - 1, 0],
        [0, 0, 1, 0, 0, 0, 0, 0], [0, 0, 0, 0, 0, 0, 0, 1],
        [0, 0, 0, - 1, 0, 0, 0, 0], [0, 0, 0, 0, 0, 1, 0, 0]],
       [[0, 0, 1, 0, 0, 0, 0, 0], [0, 0, 0, 0, - 1, 0, 0, 0],
        [1, 0, 0, 0, 0, 0, 0, 0], [0, 0, 0, 0, 0, 1, 0, 0],
        [0, - 1, 0, 0, 0, 0, 0, 0], [0, 0, 0, 1, 0, 0, 0, 0],
        [0, 0, 0, 0, 0, 0, 0, 1], [0, 0, 0, 0, 0, 0, 1, 0]],
       [[0, 0, 0, 1, 0, 0, 0, 0], [0, 0, 0, 0, 0, 0, 1, 0],
        [0, 0, 0, 0, 0, - 1, 0, 0], [1, 0, 0, 0, 0, 0, 0, 0],
        [0, 0, 0, 0, 0, 0, 0, 1], [0, 0, - 1, 0, 0, 0, 0, 0],
        [0, 1, 0, 0, 0, 0, 0, 0], [0, 0, 0, 0, 1, 0, 0, 0]],
       [[0, 0, 0, 0, 1, 0, 0, 0], [0, 0, - 1, 0, 0, 0, 0, 0],
        [0, 1, 0, 0, 0, 0, 0, 0], [0, 0, 0, 0, 0, 0, 0, 1],
        [- 1, 0, 0, 0, 0, 0, 0, 0], [0, 0, 0, 0, 0, 0, - 1, 0],
        [0, 0, 0, 0, 0, 1, 0, 0], [0, 0, 0, - 1, 0, 0, 0, 0]],
       [[0, 0, 0, 0, 0, 1, 0, 0], [0, 0, 0, 0, 0, 0, 0, 1],
        [0, 0, 0, - 1, 0, 0, 0, 0], [0, 0, 1, 0, 0, 0, 0, 0],
        [0, 0, 0, 0, 0, 0, 1, 0], [- 1, 0, 0, 0, 0, 0, 0, 0],
        [0, 0, 0, 0, - 1, 0, 0, 0], [0, - 1, 0, 0, 0, 0, 0, 0]],
       [[0, 0, 0, 0, 0, 0, 1, 0], [0, 0, 0, 1, 0, 0, 0, 0],
        [0, 0, 0, 0, 0, 0, 0, 1], [0, - 1, 0, 0, 0, 0, 0, 0],
        [0, 0, 0, 0, 0, - 1, 0, 0], [0, 0, 0, 0, 1, 0, 0, 0],
        [- 1, 0, 0, 0, 0, 0, 0, 0], [0, 0, - 1, 0, 0, 0, 0, 0]],
       [[0, 0, 0, 0, 0, 0, 0, 1], [0, 0, 0, 0, 0, 1, 0, 0],
        [0, 0, 0, 0, 0, 0, 1, 0], [0, 0, 0, 0, 1, 0, 0, 0],
        [0, 0, 0, - 1, 0, 0, 0, 0], [0, - 1, 0, 0, 0, 0, 0, 0],
        [0, 0, - 1, 0, 0, 0, 0, 0], [- 1, 0, 0, 0, 0, 0, 0, 0]]] \<and>
   [[map_option comp_mv (mul bj (PyMV bk)).
       bk \<leftarrow> [ONE, VECX, VECY, VECZ, AXIX, AXIY, AXIZ, IMAG]].
     bj \<leftarrow> [ONE, VECX, VECY, VECZ, AXIX, AXIY, AXIZ, IMAG]] =
   [[Some e. e \<leftarrow> row]. row \<leftarrow> cl3_table] \<and>
   (mul VECX (PyMV VECX) = Some ONE \<and>
    mul VECX (PyMV VECY) = Some AXIX \<and>
    mul VECY (PyMV VECX) = Some (neg AXIX) \<and>
    mul AXIX (PyMV AXIX) = Some (neg ONE) \<and>
    mul IMAG (PyMV IMAG) = Some (neg ONE) \<and>
    Option.bind (mul VECX (PyMV VECY)) (\<lambda>m. mul m (PyMV VECZ)) = Some IMAG \<and>
    comp_mv ONE = [1, 0, 0, 0, 0, 0, 0, 0] \<and>
    comp_mv AXIX = [0, 0, 0, 0, 1, 0, 0, 0] \<and>
    comp_mv IMAG = [0, 0, 0, 0, 0, 0, 0, 1] \<and>
    comp_mv (neg AXIX) = [0, 0, 0, 0, - 1, 0, 0, 0] \<and>
    comp_mv (neg ONE) = [- 1, 0, 0, 0, 0, 0, 0, 0]) \<and>
   (mul VECX (PyMV VECX) = Some ONE \<and> mul VECY (PyMV VECY) = Some ONE \<and>
    mul VECZ (PyMV VECZ) = Some ONE \<and>
    mul VECX (PyMV VECY) = Some AXIX \<and> mul VECY (PyMV VECX) = Some (neg AXIX) \<and>
    mul VECY (PyMV VECZ) = Some AXIY \<and> mul VECZ (PyMV VECY) = Some (neg AXIY) \<and>
    mul VECZ (PyMV VECX) = Some AXIZ \<and> mul VECX (PyMV VECZ) = Some (neg AXIZ) \<and>
    mul AXIX (PyMV AXIX) = Some (neg ONE) \<and> mul AXIY (PyMV AXIY) = Some (neg ONE) \<and>
    mul AXIZ (PyMV AXIZ) = Some (neg ONE) \<and> mul IMAG (PyMV IMAG) = Some (neg ONE) \<and>
    [mul IMAG (PyMV b). b \<leftarrow> [ONE, VECX, VECY, VECZ, AXIX, AXIY, AXIZ, IMAG]] =
    [mul b (PyMV IMAG). b \<leftarrow> [ONE, VECX, VECY, VECZ, AXIX, AXIY, AXIZ, IMAG]] \<and>
    comp_mv (neg AXIY) = [0, 0, 0, 0, 0, - 1, 0, 0] \<and>
    comp_mv (neg AXIZ) = [0, 0, 0, 0, 0, 0, - 1, 0]) \<and>
   (\<forall>a b c. wf_mv a \<and> wf_mv b \<and> wf_mv c \<longrightarrow>
     Option.bind (mul a (PyMV b)) (\<lambda>m. mul m (PyMV c)) =
     Option.bind (mul b (PyMV c)) (\<lambda>m. mul a (PyMV m))) \<and>
   (\<forall>a. wf_mv a \<longrightarrow> mul ONE (PyMV a) = Some a \<and> mul a (PyMV ONE) = Some a)"
  by (rule conjI [OF METRIC_cl3 conjI [OF METRIC_literal conjI [OF basis_products_cl3
        conjI [OF named_products conjI [OF cl3_relations conjI [OF mul_assoc_all mul_ONE]]]]]])

theorem metric_cayley_table_witness:
  "wf_mv VECX \<and> wf_mv VECY \<and> wf_mv VECZ \<and>
   Option.bind (mul VECX (PyMV VECY)) (\<lambda>m. mul m (PyMV VECZ)) =
   Option.bind (mul VECY (PyMV VECZ)) (\<lambda>m. mul VECX (PyMV m)) \<and>
   Option.bind (mul VECY (PyMV VECZ)) (\<lambda>m. mul VECX (PyMV m)) = Some IMAG \<and>
   mul ONE (PyMV VECX) = Some VECX \<and> mul VECX (PyMV ONE) = Some VECX"
proof -
  have w: "wf_mv VECX" "wf_mv VECY" "wf_mv VECZ"
    by (simp_all add: VECX_def VECY_def VECZ_def wf_init)
  note t = metric_cayley_table [THEN conjunct2, THEN conjunct2, THEN conjunct2,
      THEN conjunct2, THEN conjunct2]
  have assoc: "Option.bind (mul VECX (PyMV VECY)) (\<lambda>m. mul m (PyMV VECZ)) =
      Option.bind (mul VECY (PyMV VECZ)) (\<lambda>m. mul VECX (PyMV m))"
    using t [THEN conjunct1] w by blast
  have one: "mul ONE (PyMV VECX) = Some VECX \<and> mul VECX (PyMV ONE) = Some VECX"
    using t [THEN conjunct2] w(1) by blast
  have v: "Option.bind (mul VECY (PyMV VECZ)) (\<lambda>m. mul VECX (PyMV m)) = Some IMAG"
    by (simp add: basis_defs mul_expand)
  from w assoc one v show ?thesis by blast
qed

section \<open>The geometric product\<close>

text \<open>
  C2. For multivectors \<open>a\<close> and \<open>b\<close> and an index \<open>i\<close> in \<open>[0,7]\<close>, \<open>a * b\<close> returns a
  multivector whose component \<open>i\<close> is the double sum over \<open>j\<close> and \<open>k\<close> in \<open>[0,7]\<close> of
  \<open>a[j] * b[k] * METRIC[j][k][i]\<close>. The operands are values of the model and the function
  builds a new multivector, so \<open>a\<close> and \<open>b\<close> are as they were.
\<close>

theorem mul_geometric_product:
  assumes "wf_mv a" "wf_mv b" "i < 8"
  shows "\<exists>r. mul a (PyMV b) = Some r \<and> wf_mv r \<and>
     comp_mv r ! i =
       (\<Sum>j = 0..<8. \<Sum>k = 0..<8. comp_mv a ! j * comp_mv b ! k * METRIC ! j ! k ! i)"
  using assms(3) by (simp add: mul_sum wf_mv_def)

theorem mul_geometric_product_witness:
  "wf_mv VECX \<and> wf_mv VECY \<and> (4::nat) < 8 \<and>
   (\<exists>r. mul VECX (PyMV VECY) = Some r \<and> wf_mv r \<and>
      comp_mv r ! 4 =
        (\<Sum>j = 0..<8. \<Sum>k = 0..<8. comp_mv VECX ! j * comp_mv VECY ! k * METRIC ! j ! k ! 4))"
  using mul_geometric_product [of VECX VECY 4] by (simp add: wf_mv_def basis_defs)

section \<open>Rotation\<close>

text \<open>
  A rotation about \<open>get_axis(0,0,1)\<close>, that is about the bivector \<open>AXIZ = VECZ * VECX\<close>,
  turns the z-x plane and leaves the y component alone.
\<close>

lemma rotate_about_axiz:
  "rotate (get_vector x y z) (get_axis 0 0 1) theta =
     Some (get_vector (x * cos theta - z * sin theta) y (x * sin theta + z * cos theta))"
proof -
  define c where "c = cos (theta / 2)"
  define s where "s = sin (theta / 2)"
  have ct: "cos theta = c * c - s * s"
    using cos_double [of "theta / 2"] by (simp add: c_def s_def power2_eq_square)
  have st: "sin theta = 2 * s * c"
    using sin_double [of "theta / 2"] by (simp add: c_def s_def)
  have one: "c * c + s * s = 1"
    using sin_cos_squared_add3 [of "theta / 2"] by (simp add: c_def s_def add.commute)
  have y: "c * (c * y) + s * (s * y) = y"
  proof -
    have "c * (c * y) + s * (s * y) = (c * c + s * s) * y" by (simp add: algebra_simps)
    then show ?thesis by (simp add: one)
  qed
  show ?thesis
    unfolding rotate_def c_def [symmetric] s_def [symmetric]
    by (simp add: rotate2_def rotate3_def rotor2_def get_vector_def get_axis_def init_def
        mul_expand ct st y algebra_simps)
qed

text \<open>
  A rotation about \<open>get_axis(1,0,0)\<close>, the bivector \<open>AXIX = VECX * VECY\<close>, turns the x-y
  plane and leaves the z component alone; a positive angle turns x towards \<open>-y\<close>.
\<close>

lemma rotate_about_axix:
  "rotate (get_vector x y z) (get_axis 1 0 0) theta =
     Some (get_vector (x * cos theta + y * sin theta) (y * cos theta - x * sin theta) z)"
proof -
  define c where "c = cos (theta / 2)"
  define s where "s = sin (theta / 2)"
  have ct: "cos theta = c * c - s * s"
    using cos_double [of "theta / 2"] by (simp add: c_def s_def power2_eq_square)
  have st: "sin theta = 2 * s * c"
    using sin_double [of "theta / 2"] by (simp add: c_def s_def)
  have one: "c * c + s * s = 1"
    using sin_cos_squared_add3 [of "theta / 2"] by (simp add: c_def s_def add.commute)
  have z: "c * (c * z) + s * (s * z) = z"
  proof -
    have "c * (c * z) + s * (s * z) = (c * c + s * s) * z" by (simp add: algebra_simps)
    then show ?thesis by (simp add: one)
  qed
  show ?thesis
    unfolding rotate_def c_def [symmetric] s_def [symmetric]
    by (simp add: rotate2_def rotate3_def rotor2_def get_vector_def get_axis_def init_def
        mul_expand ct st z algebra_simps)
qed

text \<open>
  C3. The claim is that the quarter turn of \<open>get_vector(1,0,0)\<close> about
  \<open>get_axis(0,0,1)\<close> is \<open>get_vector(0,1,0)\<close>, as a turn about the z axis is. The code does
  otherwise. In exact arithmetic it returns \<open>get_vector(0,0,1)\<close>: y component 0 and z
  component 1, where \<open>get_vector(0,1,0)\<close> has 1 and 0. The same turn takes
  \<open>get_vector(0,0,1)\<close> to \<open>get_vector(-1,0,0)\<close> and leaves \<open>get_vector(0,1,0)\<close> where it is,
  for every angle: the turn "about the axis with z component 1" turns about the y axis.
  The table names the bivectors \<open>AXIX = VECX * VECY\<close>, \<open>AXIY = VECY * VECZ\<close>,
  \<open>AXIZ = VECZ * VECX\<close>, one step away from the duals of the vectors of the same name:
  the dual of \<open>VECZ\<close> is \<open>IMAG * VECZ = AXIX\<close>.
\<close>

theorem rotate_quarter_turn:
  "rotate (get_vector 1 0 0) (get_axis 0 0 1) (pi / 2) = Some (get_vector 0 0 1) \<and>
   comp_mv (get_vector 0 0 1) = [0, 0, 0, 1, 0, 0, 0, 0] \<and>
   comp_mv (get_vector 0 1 0) = [0, 0, 1, 0, 0, 0, 0, 0] \<and>
   rotate (get_vector 0 0 1) (get_axis 0 0 1) (pi / 2) = Some (get_vector (- 1) 0 0) \<and>
   rotate (get_vector 0 1 0) (get_axis 0 0 1) theta = Some (get_vector 0 1 0) \<and>
   mul IMAG (PyMV VECZ) = Some AXIX"
  using rotate_about_axiz [of 1 0 0 "pi / 2"] rotate_about_axiz [of 0 0 1 "pi / 2"]
    rotate_about_axiz [of 0 1 0 theta]
  by (simp add: get_vector_def basis_defs mul_expand)

text \<open>
  C4. \<open>rotate(self, axis, theta)\<close> is the half-angle sandwich \<open>(L * self) * R\<close> with
  \<open>L = rotor(axis, theta/2)\<close> and \<open>R = rotor(axis, -theta/2)\<close>, where \<open>R\<close> is the rotor
  built from the negated half-angle sine; it equals
  \<open>rotate2(self, axis, cos(theta/2), sin(theta/2))\<close> and \<open>rotate3(self, L, R)\<close>, and it
  returns a multivector.
\<close>

theorem rotate_sandwich:
  "rotate self axis theta =
     Option.bind (mul (rotor axis (theta / 2)) (PyMV self))
       (\<lambda>m. mul m (PyMV (rotor axis (- theta / 2)))) \<and>
   rotor axis (- theta / 2) = rotor2 axis (cos (theta / 2)) (- sin (theta / 2)) \<and>
   rotate self axis theta = rotate2 self axis (cos (theta / 2)) (sin (theta / 2)) \<and>
   rotate self axis theta = rotate3 self (rotor axis (theta / 2)) (rotor axis (- theta / 2)) \<and>
   (\<exists>r. rotate self axis theta = Some r \<and> wf_mv r)"
  by (simp add: rotate_def rotate2_def rotate3_def rotor_def mul.simps(1) wf_init_star)

text \<open>
  C5. \<open>rotor(axis, theta)\<close> returns the multivector with scalar component \<open>cos(theta)\<close>,
  bivector components \<open>axis[4]*sin(theta)\<close>, \<open>axis[5]*sin(theta)\<close>, \<open>axis[6]*sin(theta)\<close>
  and zero vector and pseudoscalar components; two axes that agree at the indices 4, 5
  and 6 give the same rotor.
\<close>

theorem rotor_components:
  assumes "wf_mv axis"
  shows "comp_mv (rotor axis theta) =
     [cos theta, 0, 0, 0,
      comp_mv axis ! 4 * sin theta, comp_mv axis ! 5 * sin theta, comp_mv axis ! 6 * sin theta,
      0] \<and>
     (\<forall>axis'. wf_mv axis' \<and> comp_mv axis' ! 4 = comp_mv axis ! 4 \<and>
         comp_mv axis' ! 5 = comp_mv axis ! 5 \<and> comp_mv axis' ! 6 = comp_mv axis ! 6 \<longrightarrow>
       rotor axis' theta = rotor axis theta)"
  by (simp add: rotor_def rotor2_def init_def)

theorem rotor_components_witness:
  "wf_mv (get_axis 0 0 1) \<and> wf_mv (init 5 6 7 8 0 0 1 9) \<and>
   comp_mv (rotor (get_axis 0 0 1) (pi / 2)) = [0, 0, 0, 0, 0, 0, 1, 0] \<and>
   rotor (init 5 6 7 8 0 0 1 9) (pi / 2) = rotor (get_axis 0 0 1) (pi / 2)"
proof -
  have w1: "wf_mv (get_axis 0 0 1)" by (simp add: get_axis_def wf_init)
  have w2: "wf_mv (init 5 6 7 8 0 0 1 9)" by (rule wf_init)
  note t = rotor_components [OF w1, of "pi / 2"]
  have c: "comp_mv (rotor (get_axis 0 0 1) (pi / 2)) = [0, 0, 0, 0, 0, 0, 1, 0]"
    using t [THEN conjunct1] by (simp add: get_axis_def init_def)
  have "wf_mv (init 5 6 7 8 0 0 1 9) \<and>
      comp_mv (init 5 6 7 8 0 0 1 9) ! 4 = comp_mv (get_axis 0 0 1) ! 4 \<and>
      comp_mv (init 5 6 7 8 0 0 1 9) ! 5 = comp_mv (get_axis 0 0 1) ! 5 \<and>
      comp_mv (init 5 6 7 8 0 0 1 9) ! 6 = comp_mv (get_axis 0 0 1) ! 6 \<longrightarrow>
    rotor (init 5 6 7 8 0 0 1 9) (pi / 2) = rotor (get_axis 0 0 1) (pi / 2)"
    using t [THEN conjunct2] by (rule spec)
  moreover have "comp_mv (init 5 6 7 8 0 0 1 9) ! 4 = comp_mv (get_axis 0 0 1) ! 4"
    "comp_mv (init 5 6 7 8 0 0 1 9) ! 5 = comp_mv (get_axis 0 0 1) ! 5"
    "comp_mv (init 5 6 7 8 0 0 1 9) ! 6 = comp_mv (get_axis 0 0 1) ! 6"
    by (simp_all add: get_axis_def init_def)
  ultimately have r: "rotor (init 5 6 7 8 0 0 1 9) (pi / 2) = rotor (get_axis 0 0 1) (pi / 2)"
    using w2 by blast
  from w1 w2 c r show ?thesis by blast
qed

section \<open>Linear combinations\<close>

lemma add_nth:
  assumes "wf_mv a" "wf_mv b"
  shows "add a b = MultiVector [comp_mv a ! m + comp_mv b ! m. m \<leftarrow> [0..<8]]"
proof -
  from assms(1) obtain a0 a1 a2 a3 a4 a5 a6 a7 where
    a: "a = MultiVector [a0, a1, a2, a3, a4, a5, a6, a7]" by (rule wf_mv_cases)
  from assms(2) obtain b0 b1 b2 b3 b4 b5 b6 b7 where
    b: "b = MultiVector [b0, b1, b2, b3, b4, b5, b6, b7]" by (rule wf_mv_cases)
  show ?thesis by (simp add: a b add_def iter_def init_star_def upt_8)
qed

text \<open>A numeric coefficient always gives a product, the scaled multivector.\<close>

lemma rmul_float: "rmul v (PyFloat c) = Some (init_star [x * c. x \<leftarrow> iter v])"
  by simp

lemma those_map_Some: "those (map Some xs) = Some xs"
  by (induction xs) simp_all

lemma products_Some:
  "[rmul v (PyFloat c). (c, v) \<leftarrow> zip comps system] =
   map Some [init_star [x * c. x \<leftarrow> iter v]. (c, v) \<leftarrow> zip comps system]"
  by (simp add: case_prod_unfold)

lemma scaled_nth:
  "wf_mv v \<Longrightarrow> m < 8 \<Longrightarrow> comp_mv (init_star [x * c. x \<leftarrow> iter v]) ! m = c * comp_mv v ! m"
  by (simp add: wf_mv_def iter_def init_star_def)

text \<open>The fold of \<^verbatim>\<open>sum(..., start)\<close>, component by component.\<close>

lemma foldl_add_scaled:
  assumes "length cs = length vs"
  shows "wf_mv acc \<Longrightarrow> (\<forall>v \<in> set vs. wf_mv v) \<Longrightarrow>
    foldl add acc [init_star [x * c. x \<leftarrow> iter v]. (c, v) \<leftarrow> zip cs vs] =
    MultiVector
      [comp_mv acc ! m + (\<Sum>i < length vs. cs ! i * comp_mv (vs ! i) ! m). m \<leftarrow> [0..<8]]"
  using assms
proof (induction cs vs arbitrary: acc rule: list_induct2)
  case Nil
  from Nil(1) obtain a0 a1 a2 a3 a4 a5 a6 a7 where
    "acc = MultiVector [a0, a1, a2, a3, a4, a5, a6, a7]" by (rule wf_mv_cases)
  then show ?case by (simp add: upt_8)
next
  case (Cons c cs v vs)
  let ?p = "init_star [x * c. x \<leftarrow> iter v]"
  have wfv: "wf_mv v" and wfvs: "\<forall>v \<in> set vs. wf_mv v"
    using Cons.prems(2) by simp_all
  have wfp: "wf_mv ?p" using wfv by (rule wf_scaled)
  have wfa: "wf_mv (add acc ?p)" using Cons.prems(1) wfp by (rule wf_add)
  have step: "comp_mv (add acc ?p) ! m = comp_mv acc ! m + c * comp_mv v ! m" if "m < 8" for m
    using that by (simp add: add_nth [OF Cons.prems(1) wfp] scaled_nth [OF wfv])
  have "foldl add acc [init_star [x * c'. x \<leftarrow> iter v']. (c', v') \<leftarrow> zip (c # cs) (v # vs)] =
        foldl add (add acc ?p) [init_star [x * c'. x \<leftarrow> iter v']. (c', v') \<leftarrow> zip cs vs]"
    by simp
  also have "\<dots> = MultiVector
      [comp_mv (add acc ?p) ! m + (\<Sum>i < length vs. cs ! i * comp_mv (vs ! i) ! m).
       m \<leftarrow> [0..<8]]"
    using wfa wfvs by (rule Cons.IH)
  also have "\<dots> = MultiVector
      [comp_mv acc ! m + (\<Sum>i < length (v # vs). (c # cs) ! i * comp_mv ((v # vs) ! i) ! m).
       m \<leftarrow> [0..<8]]"
    by (simp add: step sum.lessThan_Suc_shift add.assoc del: sum.lessThan_Suc)
  finally show ?case .
qed

text \<open>
  C6. With sequences of different lengths \<open>linear_combination\<close> returns \<^verbatim>\<open>None\<close>, the
  empty result, and no multivector; with sequences of equal length it returns the
  multivector whose component \<open>m\<close> is the sum over \<open>i\<close> of \<open>coeffs[i] * system[i][m]\<close>.
\<close>

theorem linear_combination_lengths:
  "(length system \<noteq> length comps \<longrightarrow> linear_combination system comps = None) \<and>
   (length system = length comps \<and> (\<forall>v \<in> set system. wf_mv v) \<longrightarrow>
      linear_combination system comps =
        Some (MultiVector
          [\<Sum>i < length system. comps ! i * comp_mv (system ! i) ! m. m \<leftarrow> [0..<8]]))"
proof (intro conjI impI)
  assume "length system \<noteq> length comps"
  then show "linear_combination system comps = None"
    by (simp add: linear_combination_def)
next
  assume h: "length system = length comps \<and> (\<forall>v \<in> set system. wf_mv v)"
  have z: "wf_mv ZERO" by (simp add: ZERO_def wf_init)
  have z0: "comp_mv ZERO ! m = 0" if "m < 8" for m
    using that by (simp add: ZERO_def init_def nth_Cons split: nat.splits)
  have "linear_combination system comps =
     Some (foldl add ZERO [init_star [x * c. x \<leftarrow> iter v]. (c, v) \<leftarrow> zip comps system])"
    using h unfolding linear_combination_def products_Some those_map_Some by simp
  also have "\<dots> = Some (MultiVector
      [comp_mv ZERO ! m + (\<Sum>i < length system. comps ! i * comp_mv (system ! i) ! m).
       m \<leftarrow> [0..<8]])"
    using foldl_add_scaled [of comps system ZERO] h z by simp
  also have "\<dots> = Some (MultiVector
      [\<Sum>i < length system. comps ! i * comp_mv (system ! i) ! m. m \<leftarrow> [0..<8]])"
    by (simp add: z0)
  finally show "linear_combination system comps =
     Some (MultiVector
       [\<Sum>i < length system. comps ! i * comp_mv (system ! i) ! m. m \<leftarrow> [0..<8]])" .
qed

theorem linear_combination_lengths_witness:
  "length [VECX] \<noteq> length ([] :: real list) \<and> linear_combination [VECX] [] = None \<and>
   length [VECX, AXIY] = length [2, 3 :: real] \<and> wf_mv VECX \<and> wf_mv AXIY \<and>
   linear_combination [VECX, AXIY] [2, 3] = Some (MultiVector [0, 2, 0, 0, 0, 3, 0, 0])"
  using linear_combination_lengths [of "[VECX]" "[]"]
    linear_combination_lengths [of "[VECX, AXIY]" "[2, 3]"]
  by (simp add: wf_mv_def basis_defs upt_8 lessThan_Suc eval_nat_numeral)

subsection \<open>Coefficients that are not finite\<close>

lemmas fl_defs =
  linear_combination_fl_def VECTOR_BASIS_fl_def VECX_fl_def VECY_fl_def VECZ_fl_def
  ZERO_fl_def init_fl_def rmul_fl_def mul_fl_def add_fl_def iter_fl_def init_star_fl_def
  get_vector_fl_def

text \<open>On finite values the methods over floats are the methods over the reals.\<close>

lemma of_mv_init_star: "of_mv (init_star xs) = init_star_fl (map Finite xs)"
  by (simp add: of_mv_def init_star_def init_star_fl_def)

lemma comp_fl_of_mv: "comp_fl (of_mv v) = map Finite (comp_mv v)"
  by (simp add: of_mv_def)

lemma map2_Finite:
  "[fl_add c1 c2. (c1, c2) \<leftarrow> zip (map Finite xs) (map Finite ys)] =
   map Finite [c1 + c2. (c1, c2) \<leftarrow> zip xs ys]"
  by (induction xs ys rule: list_induct2') simp_all

lemma add_fl_of_mv: "add_fl (of_mv a) (of_mv b) = of_mv (add a b)"
  unfolding add_fl_def add_def iter_fl_def iter_def of_mv_init_star comp_fl_of_mv map2_Finite ..

lemma rmul_fl_finite:
  "rmul_fl (of_mv v) (Finite c) = Some (of_mv (init_star [x * c. x \<leftarrow> iter v]))"
  by (simp add: rmul_fl_def mul_fl_def iter_fl_def iter_def of_mv_init_star comp_fl_of_mv o_def)

lemma foldl_add_fl_of_mv: "foldl add_fl (of_mv acc) (map of_mv ps) = of_mv (foldl add acc ps)"
  by (induction ps arbitrary: acc) (simp_all add: add_fl_of_mv)

lemma ZERO_fl_of_mv: "ZERO_fl = of_mv ZERO"
  by (simp add: ZERO_fl_def ZERO_def init_fl_def init_def of_mv_def)

lemma products_fl_finite:
  assumes "length comps = length system"
  shows "[rmul_fl v c. (c, v) \<leftarrow> zip (map Finite comps) (map of_mv system)] =
         map Some (map of_mv [init_star [x * c. x \<leftarrow> iter v]. (c, v) \<leftarrow> zip comps system])"
  using assms by (induction comps system rule: list_induct2) (simp_all add: rmul_fl_finite)

lemma linear_combination_fl_finite:
  "linear_combination_fl (map of_mv system) (map Finite comps) =
   map_option of_mv (linear_combination system comps)"
proof (cases "length system = length comps")
  case False
  then show ?thesis by (simp add: linear_combination_fl_def linear_combination_def)
next
  case True
  let ?ps = "[init_star [x * c. x \<leftarrow> iter v]. (c, v) \<leftarrow> zip comps system]"
  have r: "linear_combination system comps = Some (foldl add ZERO ?ps)"
    using True unfolding linear_combination_def products_Some those_map_Some by simp
  have "linear_combination_fl (map of_mv system) (map Finite comps) =
        Some (foldl add_fl ZERO_fl (map of_mv ?ps))"
    using True unfolding linear_combination_fl_def products_fl_finite [OF True [symmetric]]
      those_map_Some by simp
  also have "\<dots> = Some (of_mv (foldl add ZERO ?ps))"
    by (simp only: ZERO_fl_of_mv foldl_add_fl_of_mv)
  finally show ?thesis by (simp add: r)
qed

text \<open>
  C7, as the claim states it, fails: the coefficient may be any float, and for
  \<open>(inf, 0.0, 0.0)\<close> the product \<open>inf * VECX\<close> has the component \<open>0.0 * inf\<close>, which is NaN,
  wherever \<open>VECX\<close> has a zero. \<open>linear_combination\<close> returns
  \<open>[nan, inf, nan, nan, nan, nan, nan, nan]\<close>, and \<open>get_vector(inf, 0.0, 0.0)\<close> is
  \<open>[0, inf, 0, 0, 0, 0, 0, 0]\<close>.
\<close>

theorem linear_combination_inf_counterexample:
  "linear_combination_fl VECTOR_BASIS_fl [PosInf, Finite 0, Finite 0] =
     Some (MultiVector_fl [NaN, PosInf, NaN, NaN, NaN, NaN, NaN, NaN]) \<and>
   get_vector_fl PosInf (Finite 0) (Finite 0) =
     MultiVector_fl [Finite 0, PosInf, Finite 0, Finite 0, Finite 0, Finite 0, Finite 0, Finite 0]"
  by (simp add: fl_defs)

text \<open>
  C7, amended. For all finite numbers \<open>x\<close>, \<open>y\<close>, \<open>z\<close>,
  \<open>linear_combination(VECTOR_BASIS, (x, y, z))\<close> is \<open>get_vector(x, y, z)\<close>, component by
  component: the multivector with components \<open>[0, x, y, z, 0, 0, 0, 0]\<close>. It is stated
  over the floats, with the three coefficients finite, and over the reals.
\<close>

theorem linear_combination_vector_basis:
  "linear_combination_fl VECTOR_BASIS_fl [Finite x, Finite y, Finite z] =
     Some (get_vector_fl (Finite x) (Finite y) (Finite z)) \<and>
   comp_fl (get_vector_fl (Finite x) (Finite y) (Finite z)) =
     [Finite 0, Finite x, Finite y, Finite z, Finite 0, Finite 0, Finite 0, Finite 0] \<and>
   linear_combination VECTOR_BASIS [x, y, z] = Some (get_vector x y z) \<and>
   comp_mv (get_vector x y z) = [0, x, y, z, 0, 0, 0, 0]"
  by (simp add: fl_defs linear_combination_def VECTOR_BASIS_def basis_defs get_vector_def
      add_def iter_def init_star_def)

section \<open>Dispatch of the multiplication\<close>

text \<open>
  C8. A right operand that is neither a \<open>MultiVector\<close> nor an \<open>int\<close> nor a \<open>float\<close> makes
  \<^verbatim>\<open>__mul__\<close> return \<^verbatim>\<open>None\<close> and no multivector; a \<open>MultiVector\<close> operand gives the
  geometric product (the double sum over the metric table) and a numeric operand scales
  every component.
\<close>

theorem mul_dispatch:
  "(\<not> isinstance_MultiVector other \<and> \<not> isinstance_int other \<and> \<not> isinstance_float other \<longrightarrow>
      mul a other = None) \<and>
   (wf_mv a \<and> wf_mv b \<longrightarrow>
      mul a (PyMV b) =
        Some (MultiVector
          [\<Sum>j = 0..<8. \<Sum>k = 0..<8. comp_mv a ! j * comp_mv b ! k * METRIC ! j ! k ! i.
           i \<leftarrow> [0..<8]])) \<and>
   (wf_mv a \<and> (isinstance_int s \<or> isinstance_float s) \<longrightarrow>
      mul a s = Some (MultiVector [c * num_of s. c \<leftarrow> comp_mv a]))"
proof (intro conjI impI)
  assume "\<not> isinstance_MultiVector other \<and> \<not> isinstance_int other \<and> \<not> isinstance_float other"
  then show "mul a other = None" by (cases other) simp_all
next
  show "mul a (PyMV b) =
        Some (MultiVector
          [\<Sum>j = 0..<8. \<Sum>k = 0..<8. comp_mv a ! j * comp_mv b ! k * METRIC ! j ! k ! i.
           i \<leftarrow> [0..<8]])"
    by (rule mul_sum)
next
  assume "wf_mv a \<and> (isinstance_int s \<or> isinstance_float s)"
  then show "mul a s = Some (MultiVector [c * num_of s. c \<leftarrow> comp_mv a])"
    by (cases s) (simp_all add: wf_mv_def iter_def init_star_def)
qed

theorem mul_dispatch_witness:
  "\<not> isinstance_MultiVector (PyStr ''x'') \<and> \<not> isinstance_int (PyStr ''x'') \<and>
   \<not> isinstance_float (PyStr ''x'') \<and> mul VECX (PyStr ''x'') = None \<and>
   wf_mv VECX \<and> wf_mv VECY \<and> mul VECX (PyMV VECY) = Some AXIX \<and>
   isinstance_int (PyInt 3) \<and> mul VECX (PyInt 3) = Some (MultiVector [0, 3, 0, 0, 0, 0, 0, 0])"
  using mul_dispatch [of "PyStr ''x''" VECX VECY "PyInt 3"]
  by (simp add: wf_mv_def basis_defs mul_expand)

section \<open>Indexing\<close>

text \<open>
  C9, as the claim states it, fails: \<open>-1\<close> lies outside \<open>[0,7]\<close> and the read
  \<open>IMAG[-1]\<close> returns the last component, 1, with no error.
\<close>

theorem getitem_negative_counterexample:
  "wf_mv IMAG \<and> \<not> (0 \<le> (- 1 :: int) \<and> (- 1 :: int) \<le> 7) \<and> getitem IMAG (- 1) = Inr 1 \<and>
   getitem IMAG (- 1) \<noteq> Inl IndexError"
  by (simp add: getitem_def wf_mv_def basis_defs)

text \<open>
  C9, amended. For every multivector and every integer \<open>i\<close> outside \<open>[-8,7]\<close> the read
  \<open>value[i]\<close> fails with \<open>IndexError\<close>; for \<open>i\<close> within \<open>[0,7]\<close> it returns component \<open>i\<close>.
\<close>

theorem getitem_range:
  assumes "wf_mv v"
  shows "(i < - 8 \<or> 7 < i \<longrightarrow> getitem v i = Inl IndexError) \<and>
         (0 \<le> i \<and> i \<le> 7 \<longrightarrow> getitem v i = Inr (comp_mv v ! nat i))"
  using assms by (auto simp: getitem_def wf_mv_def Let_def)

theorem getitem_range_witness:
  "wf_mv IMAG \<and> getitem IMAG 8 = Inl IndexError \<and> getitem IMAG (- 9) = Inl IndexError \<and>
   getitem IMAG 7 = Inr 1"
  using getitem_range [of IMAG 8] getitem_range [of IMAG "- 9"] getitem_range [of IMAG 7]
  by (simp add: wf_mv_def basis_defs)

text \<open>
  C10. For every multivector and every integer \<open>i\<close> with \<open>-8 \<le> i \<le> -1\<close> the read
  \<open>value[i]\<close> returns component \<open>i + 8\<close> with no error, and the write \<open>value[i] = x\<close>
  succeeds, sets component \<open>i + 8\<close> to \<open>x\<close> and leaves the other components as they are.
\<close>

theorem negative_index:
  assumes "wf_mv v" "- 8 \<le> i" "i \<le> - 1"
  shows "getitem v i = Inr (comp_mv v ! nat (i + 8)) \<and>
    (\<exists>v'. setitem v (PyInt i) x = Inr v' \<and> wf_mv v' \<and> comp_mv v' ! nat (i + 8) = x \<and>
       (\<forall>k < 8. k \<noteq> nat (i + 8) \<longrightarrow> comp_mv v' ! k = comp_mv v ! k))"
  using assms by (auto simp: getitem_def setitem_def wf_mv_def Let_def)

theorem negative_index_witness:
  "wf_mv VECX \<and> - 8 \<le> (- 7 :: int) \<and> (- 7 :: int) \<le> - 1 \<and> getitem VECX (- 7) = Inr 1 \<and>
   setitem VECX (PyInt (- 7)) 5 = Inr (MultiVector [0, 5, 0, 0, 0, 0, 0, 0])"
  using negative_index [of VECX "- 7" 5]
  by (simp add: wf_mv_def basis_defs setitem_def)

end
